theory Spec2Isabelle
  imports Main "HOL-Library.Multiset"
begin

section \<open>Data model of \<^verbatim>\<open>src/App.jsx\<close>\<close>

text \<open>
  The component \<^verbatim>\<open>App\<close> keeps eleven \<^verbatim>\<open>useState\<close> cells and a handful of
  handlers that write them.  The cells become one record; the JSON objects the backend
  returns become records with the fields the component reads.  A field that may be
  absent (\<^verbatim>\<open>a.order||0\<close>, \<^verbatim>\<open>current.options || []\<close>) is an option.
\<close>

record course =
  course_id :: string
  course_name :: string
  course_code :: string

record lesson =
  lesson_id :: string
  lesson_order :: "int option"
  lesson_title :: string

record exercise =
  ex_id :: string
  ex_type :: string
  ex_prompt :: string
  ex_options :: "string list option"

record check_result =
  correct :: bool
  expected :: string

text \<open>The values of \<^verbatim>\<open>step\<close>: \<^verbatim>\<open>'home'\<close>, \<^verbatim>\<open>'play'\<close>, \<^verbatim>\<open>'result'\<close>.\<close>

datatype screen = Home | Play | Result

record app_state =
  loading :: bool
  courses :: "course list"
  selectedCourse :: "course option"
  lessons :: "lesson list"
  selectedLesson :: "lesson option"
  exercises :: "exercise list"
  step :: screen
  idx :: nat
  answer :: string
  result :: "check_result option"
  score :: int

text \<open>The initial values of the \<^verbatim>\<open>useState\<close> calls (lines 43 to 53).\<close>

definition init_state :: app_state where
  "init_state =
     \<lparr>loading = False, courses = [], selectedCourse = None, lessons = [],
      selectedLesson = None, exercises = [], step = Home, idx = 0, answer = [],
      result = None, score = 0\<rparr>"

subsection \<open>Remote calls\<close>

text \<open>
  Every \<^verbatim>\<open>await fetch(...)\<close> followed by \<^verbatim>\<open>await res.json()\<close> either yields the
  decoded body or throws into the handler's \<^verbatim>\<open>catch\<close>.  The outcome is a parameter
  of the model: \<open>Inl\<close> the failure, \<open>Inr\<close> the body.  A request records which
  endpoint a handler has called.
\<close>

datatype fetch_error = TransportFailure | DecodeFailure

type_synonym 'a response = "fetch_error + 'a"

datatype request =
    PostSeed
  | GetCourses
  | GetLessons string
  | GetExercises string
  | PostAnswer string string

subsection \<open>Sorting the lessons\<close>

text \<open>
  \<^verbatim>\<open>data.sort((a,b) => (a.order||0) - (b.order||0))\<close>.  The comparator is the
  source's; \<^verbatim>\<open>Array.prototype.sort\<close> is the built-in of the language, which is
  stable and puts \<open>a\<close> before \<open>b\<close> when the comparator is negative.  It is modelled
  by a stable insertion sort that is driven by the comparator's sign: an element is
  placed in front of the first later element it does not exceed.
\<close>

definition order_or_0 :: "lesson \<Rightarrow> int" where
  "order_or_0 a = (case lesson_order a of None \<Rightarrow> 0 | Some n \<Rightarrow> n)"

definition by_order :: "lesson \<Rightarrow> lesson \<Rightarrow> int" where
  "by_order a b = order_or_0 a - order_or_0 b"

fun insert_sorted :: "('a \<Rightarrow> 'a \<Rightarrow> int) \<Rightarrow> 'a \<Rightarrow> 'a list \<Rightarrow> 'a list" where
  "insert_sorted cmp x [] = [x]"
| "insert_sorted cmp x (y # ys) =
     (if cmp x y \<le> 0 then x # y # ys else y # insert_sorted cmp x ys)"

definition js_sort :: "('a \<Rightarrow> 'a \<Rightarrow> int) \<Rightarrow> 'a list \<Rightarrow> 'a list" where
  "js_sort cmp xs = foldr (insert_sorted cmp) xs []"

section \<open>The handlers\<close>

text \<open>
  An \<^verbatim>\<open>async\<close> handler runs synchronously up to its \<^verbatim>\<open>await\<close> and continues
  when the response arrives.  Each is therefore two functions: \<open>_begin\<close>, the writes
  made before the call together with the request issued (if any), and \<open>_resume\<close>,
  the writes made once the outcome is known.  The continuations only write values taken
  from the response or use the functional form \<^verbatim>\<open>setScore(s => s + 10)\<close>, so
  applying them to the state current at that moment is what React does.  The function
  without suffix runs the handler to completion with nothing in between.
\<close>

subsection \<open>\<^verbatim>\<open>loadLessons\<close> (lines 83 to 94)\<close>

definition loadLessons_begin :: "course \<Rightarrow> app_state \<Rightarrow> app_state \<times> request option" where
  "loadLessons_begin c s =
     (s\<lparr>lessons := [], selectedLesson := None, exercises := []\<rparr>,
      Some (GetLessons (course_id c)))"

definition loadLessons_resume :: "lesson list response \<Rightarrow> app_state \<Rightarrow> app_state" where
  "loadLessons_resume r s =
     (case r of
        Inr data \<Rightarrow> s\<lparr>lessons := js_sort by_order data\<rparr>
      | Inl e \<Rightarrow> s)"

definition loadLessons :: "course \<Rightarrow> lesson list response \<Rightarrow> app_state \<Rightarrow> app_state" where
  "loadLessons c r s = loadLessons_resume r (fst (loadLessons_begin c s))"

subsection \<open>\<^verbatim>\<open>loadCourses\<close> (lines 69 to 81)\<close>

definition loadCourses_begin :: "app_state \<Rightarrow> app_state \<times> request option" where
  "loadCourses_begin s = (s, Some GetCourses)"

definition loadCourses_resume :: "course list response \<Rightarrow> app_state \<Rightarrow> app_state \<times> request option" where
  "loadCourses_resume r s =
     (case r of
        Inl e \<Rightarrow> (s, None)
      | Inr data \<Rightarrow>
          (case data of
             [] \<Rightarrow> (s\<lparr>courses := data\<rparr>, None)
           | c # _ \<Rightarrow> loadLessons_begin c (s\<lparr>courses := data, selectedCourse := Some c\<rparr>)))"

definition loadCourses :: "course list response \<Rightarrow> lesson list response \<Rightarrow> app_state \<Rightarrow> app_state" where
  "loadCourses rc rl s =
     (case loadCourses_resume rc (fst (loadCourses_begin s)) of
        (s1, None) \<Rightarrow> s1
      | (s1, Some q) \<Rightarrow> loadLessons_resume rl s1)"

subsection \<open>\<^verbatim>\<open>seedDemo\<close> (lines 57 to 67)\<close>

definition seedDemo_begin :: "app_state \<Rightarrow> app_state \<times> request option" where
  "seedDemo_begin s = (s\<lparr>loading := True\<rparr>, Some PostSeed)"

definition seedDemo_finally :: "app_state \<Rightarrow> app_state" where
  "seedDemo_finally s = s\<lparr>loading := False\<rparr>"

definition seedDemo ::
  "unit response \<Rightarrow> course list response \<Rightarrow> lesson list response \<Rightarrow> app_state \<Rightarrow> app_state" where
  "seedDemo rs rc rl s =
     seedDemo_finally
       (case rs of
          Inl e \<Rightarrow> fst (seedDemo_begin s)
        | Inr u \<Rightarrow> loadCourses rc rl (fst (seedDemo_begin s)))"

subsection \<open>\<^verbatim>\<open>startLesson\<close> (lines 96 to 113)\<close>

text \<open>
  The argument is a lesson of the list (the Start button) or the cell
  \<^verbatim>\<open>selectedLesson\<close> (the Retry button), which may be \<^verbatim>\<open>null\<close>; then
  \<^verbatim>\<open>lesson.id\<close> throws inside the \<^verbatim>\<open>try\<close> before any call is made, and the
  \<^verbatim>\<open>finally\<close> runs at once.
\<close>

definition startLesson_begin :: "lesson option \<Rightarrow> app_state \<Rightarrow> app_state \<times> request option" where
  "startLesson_begin l s =
     (let s1 = s\<lparr>selectedLesson := l, loading := True\<rparr> in
      case l of
        None \<Rightarrow> (s1\<lparr>loading := False\<rparr>, None)
      | Some ls \<Rightarrow> (s1, Some (GetExercises (lesson_id ls))))"

definition startLesson_resume :: "exercise list response \<Rightarrow> app_state \<Rightarrow> app_state" where
  "startLesson_resume r s =
     (case r of
        Inr data \<Rightarrow>
          s\<lparr>exercises := data, idx := 0, score := 0, answer := [], result := None,
            step := Play\<rparr>
      | Inl e \<Rightarrow> s)
     \<lparr>loading := False\<rparr>"

definition startLesson :: "lesson option \<Rightarrow> exercise list response \<Rightarrow> app_state \<Rightarrow> app_state" where
  "startLesson l r s =
     (case startLesson_begin l s of
        (s1, None) \<Rightarrow> s1
      | (s1, Some q) \<Rightarrow> startLesson_resume r s1)"

subsection \<open>\<^verbatim>\<open>submitCurrent\<close> (lines 115 to 133)\<close>

text \<open>\<^verbatim>\<open>exercises[idx]\<close>: \<^verbatim>\<open>undefined\<close> past the end of the array.\<close>

definition current :: "app_state \<Rightarrow> exercise option" where
  "current s = (if idx s < length (exercises s) then Some (exercises s ! idx s) else None)"

definition submitCurrent_begin :: "app_state \<Rightarrow> app_state \<times> request option" where
  "submitCurrent_begin s =
     (case current s of
        None \<Rightarrow> (s, None)
      | Some ex \<Rightarrow> (s\<lparr>loading := True\<rparr>, Some (PostAnswer (ex_id ex) (answer s))))"

definition submitCurrent_resume :: "check_result response \<Rightarrow> app_state \<Rightarrow> app_state" where
  "submitCurrent_resume r s =
     (case r of
        Inr data \<Rightarrow>
          (if correct data then s\<lparr>result := Some data, score := score s + 10\<rparr>
           else s\<lparr>result := Some data\<rparr>)
      | Inl e \<Rightarrow> s)
     \<lparr>loading := False\<rparr>"

definition submitCurrent :: "check_result response \<Rightarrow> app_state \<Rightarrow> app_state" where
  "submitCurrent r s =
     (case submitCurrent_begin s of
        (s1, None) \<Rightarrow> s1
      | (s1, Some q) \<Rightarrow> submitCurrent_resume r s1)"

subsection \<open>\<^verbatim>\<open>next\<close> and \<^verbatim>\<open>resetToHome\<close> (lines 135 to 153)\<close>

definition next_op :: "app_state \<Rightarrow> app_state" where
  "next_op s =
     (let nextIdx = idx s + 1 in
      if nextIdx \<ge> length (exercises s) then s\<lparr>step := Result\<rparr>
      else s\<lparr>idx := nextIdx, answer := [], result := None\<rparr>)"

definition resetToHome :: "app_state \<Rightarrow> app_state" where
  "resetToHome s =
     s\<lparr>step := Home, selectedLesson := None, exercises := [], idx := 0, answer := [],
       result := None\<rparr>"

definition setAnswer :: "string \<Rightarrow> app_state \<Rightarrow> app_state" where
  "setAnswer v s = s\<lparr>answer := v\<rparr>"

definition setSelectedCourse :: "course \<Rightarrow> app_state \<Rightarrow> app_state" where
  "setSelectedCourse c s = s\<lparr>selectedCourse := Some c\<rparr>"

section \<open>What is rendered, and the buttons\<close>

text \<open>
  Lines 260 to 264 pick the screen from \<^verbatim>\<open>step\<close>; the play screen is
  \<^verbatim>\<open>current && (...)\<close> (line 202), nothing at all when there is no current exercise.
\<close>

datatype view = HomeView | PlayView exercise | BlankView | ResultView

definition rendered :: "app_state \<Rightarrow> view" where
  "rendered s =
     (case step s of
        Home \<Rightarrow> HomeView
      | Play \<Rightarrow> (case current s of None \<Rightarrow> BlankView | Some ex \<Rightarrow> PlayView ex)
      | Result \<Rightarrow> ResultView)"

text \<open>
  A button exists when its screen is rendered, and a press reaches \<^verbatim>\<open>onClick\<close>
  unless the button is \<^verbatim>\<open>disabled\<close>.  Check (line 233) is shown while
  \<^verbatim>\<open>!result\<close> and disabled by \<^verbatim>\<open>loading || !answer\<close>; Next (line 241) is shown
  once there is a result; Start (line 192) is shown per lesson under a selected course
  and disabled by \<^verbatim>\<open>loading\<close>; Retry and Back (lines 254, 255), the course buttons
  (line 171), Seed demo (line 160) and Exit lesson (line 244) are never disabled.
\<close>

datatype button =
    SeedDemoButton
  | CourseButton nat
  | StartButton nat
  | OptionButton nat
  | CheckButton
  | NextButton
  | ExitButton
  | RetryButton
  | BackButton

definition shown :: "app_state \<Rightarrow> button \<Rightarrow> bool" where
  "shown s b =
     (case b of
        SeedDemoButton \<Rightarrow> step s = Home
      | CourseButton i \<Rightarrow> step s = Home \<and> i < length (courses s)
      | StartButton i \<Rightarrow> step s = Home \<and> selectedCourse s \<noteq> None \<and> i < length (lessons s)
      | OptionButton i \<Rightarrow>
          (case rendered s of
             PlayView ex \<Rightarrow>
               ex_type ex = ''mcq'' \<and>
               i < length (case ex_options ex of None \<Rightarrow> [] | Some os \<Rightarrow> os)
           | _ \<Rightarrow> False)
      | CheckButton \<Rightarrow> step s = Play \<and> current s \<noteq> None \<and> result s = None
      | NextButton \<Rightarrow> step s = Play \<and> current s \<noteq> None \<and> result s \<noteq> None
      | ExitButton \<Rightarrow> step s = Play \<and> current s \<noteq> None
      | RetryButton \<Rightarrow> step s = Result
      | BackButton \<Rightarrow> step s = Result)"

definition disabled :: "app_state \<Rightarrow> button \<Rightarrow> bool" where
  "disabled s b =
     (case b of
        StartButton i \<Rightarrow> loading s
      | CheckButton \<Rightarrow> loading s \<or> answer s = []
      | _ \<Rightarrow> False)"

definition onClick :: "button \<Rightarrow> app_state \<Rightarrow> app_state \<times> request option" where
  "onClick b s =
     (case b of
        SeedDemoButton \<Rightarrow> seedDemo_begin s
      | CourseButton i \<Rightarrow> loadLessons_begin (courses s ! i) (setSelectedCourse (courses s ! i) s)
      | StartButton i \<Rightarrow> startLesson_begin (Some (lessons s ! i)) s
      | OptionButton i \<Rightarrow>
          (setAnswer ((case ex_options (exercises s ! idx s) of None \<Rightarrow> [] | Some os \<Rightarrow> os) ! i) s,
           None)
      | CheckButton \<Rightarrow> submitCurrent_begin s
      | NextButton \<Rightarrow> (next_op s, None)
      | ExitButton \<Rightarrow> (resetToHome s, None)
      | RetryButton \<Rightarrow> startLesson_begin (selectedLesson s) s
      | BackButton \<Rightarrow> (resetToHome s, None))"

definition press :: "button \<Rightarrow> app_state \<Rightarrow> app_state \<times> request option" where
  "press b s = (if shown s b \<and> \<not> disabled s b then onClick b s else (s, None))"

section \<open>Every write to the state\<close>

text \<open>
  The synchronous pieces above are all the code that writes the state.  An action is
  one of them; any run of the component, whatever the order in which responses arrive,
  is a sequence of actions.
\<close>

datatype action =
    SeedDemoBegin
  | SeedDemoFinally
  | LoadCoursesBegin
  | LoadCoursesResume "course list response"
  | SetSelectedCourse course
  | LoadLessonsBegin course
  | LoadLessonsResume "lesson list response"
  | StartLessonBegin "lesson option"
  | StartLessonResume "exercise list response"
  | SubmitCurrentBegin
  | SubmitCurrentResume "check_result response"
  | Next
  | ResetToHome
  | SetAnswer string

fun act :: "action \<Rightarrow> app_state \<Rightarrow> app_state" where
  "act SeedDemoBegin s = fst (seedDemo_begin s)"
| "act SeedDemoFinally s = seedDemo_finally s"
| "act LoadCoursesBegin s = fst (loadCourses_begin s)"
| "act (LoadCoursesResume r) s = fst (loadCourses_resume r s)"
| "act (SetSelectedCourse c) s = setSelectedCourse c s"
| "act (LoadLessonsBegin c) s = fst (loadLessons_begin c s)"
| "act (LoadLessonsResume r) s = loadLessons_resume r s"
| "act (StartLessonBegin l) s = fst (startLesson_begin l s)"
| "act (StartLessonResume r) s = startLesson_resume r s"
| "act SubmitCurrentBegin s = fst (submitCurrent_begin s)"
| "act (SubmitCurrentResume r) s = submitCurrent_resume r s"
| "act Next s = next_op s"
| "act ResetToHome s = resetToHome s"
| "act (SetAnswer v) s = setAnswer v s"

fun run :: "action list \<Rightarrow> app_state \<Rightarrow> app_state" where
  "run [] s = s"
| "run (a # as) s = run as (act a s)"

section \<open>Sample data\<close>

definition spanish :: course where
  "spanish = \<lparr>course_id = ''c1'', course_name = ''Spanish'', course_code = ''es''\<rparr>"

definition lesson_a :: lesson where
  "lesson_a = \<lparr>lesson_id = ''a'', lesson_order = Some 2, lesson_title = ''Food''\<rparr>"

definition lesson_b :: lesson where
  "lesson_b = \<lparr>lesson_id = ''b'', lesson_order = Some 1, lesson_title = ''Greetings''\<rparr>"

definition lesson_c :: lesson where
  "lesson_c = \<lparr>lesson_id = ''c'', lesson_order = Some 1, lesson_title = ''Numbers''\<rparr>"

definition lesson_d :: lesson where
  "lesson_d = \<lparr>lesson_id = ''d'', lesson_order = Some 3, lesson_title = ''Travel''\<rparr>"

definition lesson_e :: lesson where
  "lesson_e = \<lparr>lesson_id = ''e'', lesson_order = None, lesson_title = ''Intro''\<rparr>"

definition ex_1 :: exercise where
  "ex_1 = \<lparr>ex_id = ''x1'', ex_type = ''mcq'', ex_prompt = ''Hello'',
           ex_options = Some [''Hola'', ''Adios'']\<rparr>"

definition ex_2 :: exercise where
  "ex_2 = \<lparr>ex_id = ''x2'', ex_type = ''text'', ex_prompt = ''Thanks'', ex_options = None\<rparr>"

definition right :: check_result where
  "right = \<lparr>correct = True, expected = ''Hola''\<rparr>"

definition wrong :: check_result where
  "wrong = \<lparr>correct = False, expected = ''Gracias''\<rparr>"

text \<open>A catalog with a course and two lessons loaded, nothing started.\<close>

definition catalog_state :: app_state where
  "catalog_state =
     init_state\<lparr>courses := [spanish], selectedCourse := Some spanish,
                lessons := [lesson_b, lesson_a]\<rparr>"

text \<open>The first of two exercises on screen, nothing typed, nothing checked.\<close>

definition playing_state :: app_state where
  "playing_state =
     catalog_state\<lparr>selectedLesson := Some lesson_b, exercises := [ex_1, ex_2], step := Play\<rparr>"

text \<open>The same exercise with the first option picked.\<close>

definition answering_state :: app_state where
  "answering_state = setAnswer ''Hola'' playing_state"

text \<open>The first exercise answered correctly and checked: 10 points, result on screen.\<close>

definition reviewing_first_state :: app_state where
  "reviewing_first_state = playing_state\<lparr>answer := ''Hola'', result := Some right, score := 10\<rparr>"

text \<open>The last exercise answered correctly and checked: 20 points, result on screen.\<close>

definition reviewing_last_state :: app_state where
  "reviewing_last_state =
     playing_state\<lparr>idx := 1, answer := ''Gracias'', result := Some right, score := 20\<rparr>"

text \<open>The catalog while some call is outstanding.\<close>

definition busy_catalog_state :: app_state where
  "busy_catalog_state = catalog_state\<lparr>loading := True\<rparr>"

text \<open>
  A lesson of two exercises played to the end: the first answer right, the second
  wrong.
\<close>

definition two_exercise_run :: "action list" where
  "two_exercise_run =
     [StartLessonBegin (Some lesson_b), StartLessonResume (Inr [ex_1, ex_2]),
      SetAnswer ''Hola'', SubmitCurrentBegin, SubmitCurrentResume (Inr right), Next,
      SetAnswer ''Merci'', SubmitCurrentBegin, SubmitCurrentResume (Inr wrong), Next]"


section \<open>Failed fetches\<close>

text \<open>
  C1, as stated: a fetch that fails during \<^verbatim>\<open>loadLessons\<close> or \<^verbatim>\<open>startLesson\<close>
  changes no field of the state.  It does not hold.  \<^verbatim>\<open>loadLessons\<close> empties the
  lesson list before it calls, and \<^verbatim>\<open>startLesson\<close> stores the lesson it was given
  before it calls; neither write is undone in the \<^verbatim>\<open>catch\<close>.
\<close>

theorem failed_fetch_counterexample:
  "lessons (loadLessons spanish (Inl TransportFailure) catalog_state) \<noteq> lessons catalog_state \<and>
   selectedLesson (startLesson (Some lesson_a) (Inl TransportFailure) catalog_state)
     \<noteq> selectedLesson catalog_state"
  by (simp add: loadLessons_def loadLessons_begin_def loadLessons_resume_def startLesson_def startLesson_begin_def startLesson_resume_def
      catalog_state_def init_state_def lesson_a_def lesson_b_def)

text \<open>
  C1, amended: when the fetch of \<^verbatim>\<open>loadLessons\<close> fails, the lesson list, the
  selected lesson and the exercise list are left empty (they were cleared before the
  call) and every other field is as before; when the fetch of \<^verbatim>\<open>startLesson\<close>
  fails, the selected lesson is the one passed in, \<^verbatim>\<open>loading\<close> is false, and every
  other field (lesson list, exercise list, index, score, screen, draft, last result) is
  as before.
\<close>

theorem failed_fetch_writes:
  "loadLessons c (Inl e) s = s\<lparr>lessons := [], selectedLesson := None, exercises := []\<rparr> \<and>
   startLesson (Some l) (Inl e) s = s\<lparr>selectedLesson := Some l, loading := False\<rparr>"
  by (simp add: loadLessons_def loadLessons_begin_def loadLessons_resume_def startLesson_def startLesson_begin_def startLesson_resume_def)

section \<open>The order of the lessons\<close>

lemma js_sort_Nil: "js_sort cmp [] = []"
  by (simp add: js_sort_def)

lemma js_sort_Cons: "js_sort cmp (x # xs) = insert_sorted cmp x (js_sort cmp xs)"
  by (simp add: js_sort_def)

lemma mset_insert_sorted: "mset (insert_sorted cmp x ys) = add_mset x (mset ys)"
  by (induction ys) simp_all

lemma set_insert_sorted: "set (insert_sorted cmp x ys) = insert x (set ys)"
  by (induction ys) auto

lemma sorted_insert_sorted:
  "sorted (map order_or_0 ys) \<Longrightarrow> sorted (map order_or_0 (insert_sorted by_order x ys))"
  by (induction ys) (auto simp: by_order_def set_insert_sorted)

lemma filter_insert_sorted:
  "filter (\<lambda>l. order_or_0 l = k) (insert_sorted by_order x ys) =
     (if order_or_0 x = k then x # filter (\<lambda>l. order_or_0 l = k) ys
      else filter (\<lambda>l. order_or_0 l = k) ys)"
  by (induction ys) (auto simp: by_order_def)

lemma mset_js_sort: "mset (js_sort cmp xs) = mset xs"
  by (induction xs) (simp_all add: js_sort_Nil js_sort_Cons mset_insert_sorted)

lemma sorted_js_sort: "sorted (map order_or_0 (js_sort by_order xs))"
  by (induction xs) (simp_all add: js_sort_Nil js_sort_Cons sorted_insert_sorted)

lemma filter_js_sort:
  "filter (\<lambda>l. order_or_0 l = k) (js_sort by_order xs) = filter (\<lambda>l. order_or_0 l = k) xs"
  by (induction xs) (simp_all add: js_sort_Nil js_sort_Cons filter_insert_sorted)

lemma lessons_loadLessons: "lessons (loadLessons c (Inr data) s) = js_sort by_order data"
  by (simp add: loadLessons_def loadLessons_resume_def loadLessons_begin_def)

text \<open>
  C8: \<^verbatim>\<open>loadLessons\<close> stores the fetched lessons in ascending order of
  \<^verbatim>\<open>order\<close>, a missing \<^verbatim>\<open>order\<close> counting as 0; the result is a permutation
  of what was fetched, and the lessons of any one order value appear in the order in
  which they were fetched (the sort is stable).  For order values 2, 1, 1, 3 the two
  lessons of order 1 come first, in their fetched order.
\<close>

theorem loadLessons_sorts_stably:
  "sorted (map order_or_0 (lessons (loadLessons c (Inr data) s))) \<and>
   mset (lessons (loadLessons c (Inr data) s)) = mset data \<and>
   (\<forall>k. filter (\<lambda>l. order_or_0 l = k) (lessons (loadLessons c (Inr data) s)) =
        filter (\<lambda>l. order_or_0 l = k) data) \<and>
   order_or_0 \<lparr>lesson_id = i, lesson_order = None, lesson_title = t\<rparr> = 0 \<and>
   order_or_0 \<lparr>lesson_id = i, lesson_order = Some n, lesson_title = t\<rparr> = n \<and>
   lessons (loadLessons c
      (Inr [\<lparr>lesson_id = i1, lesson_order = Some 2, lesson_title = t1\<rparr>,
            \<lparr>lesson_id = i2, lesson_order = Some 1, lesson_title = t2\<rparr>,
            \<lparr>lesson_id = i3, lesson_order = Some 1, lesson_title = t3\<rparr>,
            \<lparr>lesson_id = i4, lesson_order = Some 3, lesson_title = t4\<rparr>]) s) =
     [\<lparr>lesson_id = i2, lesson_order = Some 1, lesson_title = t2\<rparr>,
      \<lparr>lesson_id = i3, lesson_order = Some 1, lesson_title = t3\<rparr>,
      \<lparr>lesson_id = i1, lesson_order = Some 2, lesson_title = t1\<rparr>,
      \<lparr>lesson_id = i4, lesson_order = Some 3, lesson_title = t4\<rparr>]"
proof (intro conjI allI)
  show "sorted (map order_or_0 (lessons (loadLessons c (Inr data) s)))"
    by (simp add: lessons_loadLessons sorted_js_sort)
  show "mset (lessons (loadLessons c (Inr data) s)) = mset data"
    by (simp add: lessons_loadLessons mset_js_sort)
  show "filter (\<lambda>l. order_or_0 l = k) (lessons (loadLessons c (Inr data) s)) =
        filter (\<lambda>l. order_or_0 l = k) data" for k
    by (simp add: lessons_loadLessons filter_js_sort)
qed (simp_all add: lessons_loadLessons order_or_0_def by_order_def js_sort_Nil js_sort_Cons)

theorem loadLessons_sorts_stably_witness:
  "lessons (loadLessons spanish (Inr [lesson_a, lesson_b, lesson_c, lesson_d, lesson_e]) init_state) =
     [lesson_e, lesson_b, lesson_c, lesson_a, lesson_d] \<and>
   map order_or_0 [lesson_e, lesson_b, lesson_c, lesson_a, lesson_d] = [0, 1, 1, 2, 3] \<and>
   sorted (map order_or_0
     (lessons (loadLessons spanish (Inr [lesson_a, lesson_b, lesson_c, lesson_d, lesson_e]) init_state))) \<and>
   filter (\<lambda>l. order_or_0 l = 1)
     (lessons (loadLessons spanish (Inr [lesson_a, lesson_b, lesson_c, lesson_d, lesson_e]) init_state)) =
     [lesson_b, lesson_c]"
proof -
  have out: "lessons (loadLessons spanish (Inr [lesson_a, lesson_b, lesson_c, lesson_d, lesson_e]) init_state) =
     [lesson_e, lesson_b, lesson_c, lesson_a, lesson_d]"
    by (simp add: lessons_loadLessons js_sort_Nil js_sort_Cons by_order_def order_or_0_def
        lesson_a_def lesson_b_def lesson_c_def lesson_d_def lesson_e_def)
  have keys: "map order_or_0 [lesson_e, lesson_b, lesson_c, lesson_a, lesson_d] = [0, 1, 1, 2, 3]"
    by (simp add: order_or_0_def lesson_a_def lesson_b_def lesson_c_def lesson_d_def lesson_e_def)
  have flt: "filter (\<lambda>l. order_or_0 l = 1) [lesson_a, lesson_b, lesson_c, lesson_d, lesson_e] =
      [lesson_b, lesson_c]"
    by (simp add: order_or_0_def lesson_a_def lesson_b_def lesson_c_def lesson_d_def lesson_e_def)
  from loadLessons_sorts_stably
    [of spanish "[lesson_a, lesson_b, lesson_c, lesson_d, lesson_e]" init_state]
  have "sorted (map order_or_0
     (lessons (loadLessons spanish (Inr [lesson_a, lesson_b, lesson_c, lesson_d, lesson_e]) init_state)))"
    and "filter (\<lambda>l. order_or_0 l = 1)
     (lessons (loadLessons spanish (Inr [lesson_a, lesson_b, lesson_c, lesson_d, lesson_e]) init_state)) =
     filter (\<lambda>l. order_or_0 l = 1) [lesson_a, lesson_b, lesson_c, lesson_d, lesson_e]"
    by blast+
  with out keys flt show ?thesis by simp
qed

section \<open>The busy flag\<close>

text \<open>
  C2, as stated: the busy flag is set before every remote call, \<^verbatim>\<open>loadCourses\<close> and
  \<^verbatim>\<open>loadLessons\<close> included, and whatever would start a second call while it is
  set is rejected.  It does not hold.  \<^verbatim>\<open>loadLessons\<close> issues its request with
  \<^verbatim>\<open>loading\<close> still false, and with \<^verbatim>\<open>loading\<close> true a press on a course
  button still issues a request.
\<close>

theorem busy_flag_counterexample:
  "snd (loadLessons_begin spanish catalog_state) = Some (GetLessons ''c1'') \<and>
   \<not> loading (fst (loadLessons_begin spanish catalog_state)) \<and>
   loading busy_catalog_state \<and>
   snd (press (CourseButton 0) busy_catalog_state) = Some (GetLessons ''c1'')"
  by (simp add: loadLessons_begin_def setSelectedCourse_def press_def shown_def disabled_def
      onClick_def busy_catalog_state_def catalog_state_def init_state_def spanish_def)

text \<open>
  C2, amended: \<^verbatim>\<open>startLesson\<close> and \<^verbatim>\<open>submitCurrent\<close> set \<^verbatim>\<open>loading\<close> before
  they issue their request and clear it when the call completes, whether it succeeds or
  fails; \<^verbatim>\<open>loadCourses\<close> and \<^verbatim>\<open>loadLessons\<close> never write \<^verbatim>\<open>loading\<close>;
  both issue their request whatever the flag is.  While \<^verbatim>\<open>loading\<close> is true a
  press on Start or on Check is a no-op (those two buttons are disabled); no other
  button is ever disabled.
\<close>

theorem busy_flag_discipline:
  "loading (fst (startLesson_begin (Some l) s)) \<and>
   snd (startLesson_begin (Some l) s) = Some (GetExercises (lesson_id l)) \<and>
   \<not> loading (startLesson_resume re s) \<and>
   (current s = Some ex \<longrightarrow>
      loading (fst (submitCurrent_begin s)) \<and>
      snd (submitCurrent_begin s) = Some (PostAnswer (ex_id ex) (answer s))) \<and>
   \<not> loading (submitCurrent_resume ra s) \<and>
   loading (fst (loadCourses_begin s)) = loading s \<and>
   loading (fst (loadCourses_resume rc s)) = loading s \<and>
   loading (fst (loadLessons_begin c s)) = loading s \<and>
   loading (loadLessons_resume rl s) = loading s \<and>
   snd (loadCourses_begin s) = Some GetCourses \<and>
   snd (loadLessons_begin c s) = Some (GetLessons (course_id c)) \<and>
   (loading s \<longrightarrow> press (StartButton i) s = (s, None) \<and> press CheckButton s = (s, None)) \<and>
   ((\<forall>j. b \<noteq> StartButton j) \<and> b \<noteq> CheckButton \<longrightarrow> \<not> disabled s b)"
proof (intro conjI impI)
  show "(\<forall>j. b \<noteq> StartButton j) \<and> b \<noteq> CheckButton \<Longrightarrow> \<not> disabled s b"
    by (cases b) (simp_all add: disabled_def)
  show "loading (fst (loadCourses_resume rc s)) = loading s"
    by (simp add: loadCourses_resume_def loadLessons_begin_def split: sum.split list.split)
  show "loading s \<Longrightarrow> press (StartButton i) s = (s, None)"
    by (simp add: press_def disabled_def)
  show "loading s \<Longrightarrow> press CheckButton s = (s, None)"
    by (simp add: press_def disabled_def)
  show "current s = Some ex \<Longrightarrow> loading (fst (submitCurrent_begin s))"
    by (simp add: submitCurrent_begin_def)
  show "current s = Some ex \<Longrightarrow>
      snd (submitCurrent_begin s) = Some (PostAnswer (ex_id ex) (answer s))"
    by (simp add: submitCurrent_begin_def)
  show "\<not> loading (startLesson_resume re s)"
    by (simp add: startLesson_resume_def)
  show "\<not> loading (submitCurrent_resume ra s)"
    by (simp add: submitCurrent_resume_def)
qed (simp_all add: startLesson_begin_def loadCourses_begin_def loadLessons_begin_def
      loadLessons_resume_def split: sum.split)

theorem busy_flag_discipline_witness:
  "current answering_state = Some ex_1 \<and>
   loading (fst (submitCurrent_begin answering_state)) \<and>
   snd (submitCurrent_begin answering_state) = Some (PostAnswer ''x1'' ''Hola'') \<and>
   loading busy_catalog_state \<and>
   shown busy_catalog_state (StartButton 0) \<and>
   press (StartButton 0) busy_catalog_state = (busy_catalog_state, None) \<and>
   press CheckButton busy_catalog_state = (busy_catalog_state, None) \<and>
   \<not> loading (startLesson_resume (Inl TransportFailure) busy_catalog_state) \<and>
   \<not> loading (submitCurrent_resume (Inr right) (fst (submitCurrent_begin answering_state))) \<and>
   \<not> disabled busy_catalog_state (CourseButton 0)"
proof -
  have cur: "current answering_state = Some ex_1"
    by (simp add: answering_state_def current_def setAnswer_def playing_state_def catalog_state_def init_state_def)
  have busy: "loading busy_catalog_state"
    by (simp add: busy_catalog_state_def)
  have vis: "shown busy_catalog_state (StartButton 0)"
    by (simp add: busy_catalog_state_def shown_def catalog_state_def init_state_def)
  have x1: "ex_id ex_1 = ''x1''" "answer answering_state = ''Hola''"
    by (simp_all add: ex_1_def answering_state_def setAnswer_def)
  from busy_flag_discipline [of _ answering_state _ ex_1] cur x1
  have a: "loading (fst (submitCurrent_begin answering_state))"
     "snd (submitCurrent_begin answering_state) = Some (PostAnswer ''x1'' ''Hola'')"
    by simp_all
  from busy_flag_discipline [of _ busy_catalog_state _ _ _ _ _ _ 0] busy
  have b: "press (StartButton 0) busy_catalog_state = (busy_catalog_state, None)"
     "press CheckButton busy_catalog_state = (busy_catalog_state, None)"
    by simp_all
  from busy_flag_discipline [of _ busy_catalog_state "Inl TransportFailure"]
  have c: "\<not> loading (startLesson_resume (Inl TransportFailure) busy_catalog_state)"
    by simp
  from busy_flag_discipline [of _ "fst (submitCurrent_begin answering_state)" _ _ "Inr right"]
  have d: "\<not> loading (submitCurrent_resume (Inr right) (fst (submitCurrent_begin answering_state)))"
    by simp
  have "(\<forall>j. CourseButton 0 \<noteq> StartButton j) \<and> CourseButton 0 \<noteq> CheckButton"
    by simp
  with busy_flag_discipline [of _ busy_catalog_state _ _ _ _ _ _ _ "CourseButton 0"]
  have e: "\<not> disabled busy_catalog_state (CourseButton 0)"
    by blast
  from cur busy vis a b c d e show ?thesis by simp
qed

section \<open>Submitting\<close>

text \<open>
  C3: in every state whose draft answer is the empty string, submitting (a press on
  Check, the one place \<^verbatim>\<open>submitCurrent\<close> is called from) leaves the whole state as
  it is and issues no request: the button is disabled by \<^verbatim>\<open>!answer\<close>.
\<close>

theorem check_with_empty_answer_is_noop:
  "answer s = [] \<Longrightarrow> press CheckButton s = (s, None)"
  by (simp add: press_def disabled_def)

theorem check_with_empty_answer_is_noop_witness:
  "answer playing_state = [] \<and>
   shown playing_state CheckButton \<and> \<not> loading playing_state \<and>
   press CheckButton playing_state = (playing_state, None)"
proof -
  have h: "answer playing_state = []"
    by (simp add: playing_state_def catalog_state_def init_state_def)
  have v: "shown playing_state CheckButton" "\<not> loading playing_state"
    by (simp_all add: shown_def current_def playing_state_def catalog_state_def init_state_def)
  from h v check_with_empty_answer_is_noop [OF h] show ?thesis by simp
qed

text \<open>
  C10: when the index is past the end of the exercise list, so that there is no
  current exercise, \<^verbatim>\<open>submitCurrent\<close> returns at once: the state is unchanged and no
  request is issued.
\<close>

theorem submitCurrent_without_exercise:
  "length (exercises s) \<le> idx s \<Longrightarrow>
     submitCurrent_begin s = (s, None) \<and> submitCurrent r s = s \<and>
     press CheckButton s = (s, None)"
  by (simp add: submitCurrent_def submitCurrent_begin_def current_def press_def shown_def)

theorem submitCurrent_without_exercise_witness:
  "length (exercises catalog_state) \<le> idx catalog_state \<and>
   submitCurrent_begin catalog_state = (catalog_state, None) \<and>
   submitCurrent (Inr right) catalog_state = catalog_state"
proof -
  have h: "length (exercises catalog_state) \<le> idx catalog_state"
    by (simp add: catalog_state_def init_state_def)
  from h submitCurrent_without_exercise [OF h, of "Inr right"] show ?thesis by simp
qed

section \<open>Starting a lesson that has no exercises\<close>

text \<open>
  C4 says that a start that fetches an empty exercise list ends on the result screen
  with score 0 and index 0.  What \<^verbatim>\<open>startLesson\<close> does there: score and index are
  0, but \<^verbatim>\<open>step\<close> is \<^verbatim>\<open>'play'\<close>, not \<^verbatim>\<open>'result'\<close>, and with no current
  exercise the play screen renders nothing.
\<close>

theorem startLesson_empty_list:
  "startLesson (Some l) (Inr []) s =
     s\<lparr>selectedLesson := Some l, exercises := [], idx := 0, score := 0, answer := [],
       result := None, step := Play, loading := False\<rparr> \<and>
   step (startLesson (Some l) (Inr []) s) = Play \<and>
   rendered (startLesson (Some l) (Inr []) s) = BlankView \<and>
   step (startLesson (Some l) (Inr []) s) \<noteq> Result"
  by (simp add: startLesson_def startLesson_begin_def startLesson_resume_def rendered_def current_def)

section \<open>Advancing\<close>

lemma exercises_next_op: "exercises (next_op s) = exercises s"
  by (simp add: next_op_def Let_def)

lemma score_next_op: "score (next_op s) = score s"
  by (simp add: next_op_def Let_def)

lemma next_op_advance:
  "idx s + 1 < length (exercises s) \<Longrightarrow>
     next_op s = s\<lparr>idx := idx s + 1, answer := [], result := None\<rparr>"
  by (simp add: next_op_def Let_def)

lemma next_op_finish:
  "length (exercises s) \<le> idx s + 1 \<Longrightarrow> next_op s = s\<lparr>step := Result\<rparr>"
  by (simp add: next_op_def Let_def)

lemma score_funpow_next_op: "score ((next_op ^^ n) s) = score s"
  by (induction n) (simp_all add: score_next_op)

lemma funpow_next_op_within:
  "idx s + n < length (exercises s) \<Longrightarrow>
     idx ((next_op ^^ n) s) = idx s + n \<and> step ((next_op ^^ n) s) = step s \<and>
     exercises ((next_op ^^ n) s) = exercises s"
proof (induction n)
  case 0
  show ?case by simp
next
  case (Suc n)
  then have ih: "idx ((next_op ^^ n) s) = idx s + n" "step ((next_op ^^ n) s) = step s"
     "exercises ((next_op ^^ n) s) = exercises s"
    by simp_all
  from Suc.prems ih have "idx ((next_op ^^ n) s) + 1 < length (exercises ((next_op ^^ n) s))"
    by simp
  from next_op_advance [OF this] ih show ?case by simp
qed

lemma funpow_next_op_finished:
  "idx s < length (exercises s) \<Longrightarrow> length (exercises s) \<le> idx s + n \<Longrightarrow>
     step ((next_op ^^ n) s) = Result \<and> idx ((next_op ^^ n) s) = length (exercises s) - 1 \<and>
     exercises ((next_op ^^ n) s) = exercises s"
proof (induction n)
  case 0
  then show ?case by simp
next
  case (Suc n)
  show ?case
  proof (cases "length (exercises s) \<le> idx s + n")
    case True
    with Suc have ih: "step ((next_op ^^ n) s) = Result"
      "idx ((next_op ^^ n) s) = length (exercises s) - 1"
      "exercises ((next_op ^^ n) s) = exercises s"
      by simp_all
    then have "length (exercises ((next_op ^^ n) s)) \<le> idx ((next_op ^^ n) s) + 1"
      by simp
    from next_op_finish [OF this] ih show ?thesis by simp
  next
    case False
    then have lt: "idx s + n < length (exercises s)" by simp
    from funpow_next_op_within [OF lt]
    have w: "idx ((next_op ^^ n) s) = idx s + n" "exercises ((next_op ^^ n) s) = exercises s"
      by simp_all
    with Suc.prems have "length (exercises ((next_op ^^ n) s)) \<le> idx ((next_op ^^ n) s) + 1"
      by simp
    from next_op_finish [OF this] w Suc.prems lt show ?thesis by simp
  qed
qed

text \<open>
  C5: \<^verbatim>\<open>next\<close> moves to index + 1 when that is within the list, clearing the draft
  and the last result, and otherwise moves to the result screen.  Hence \<open>n\<close> calls
  that stay within the list raise the index by exactly \<open>n\<close> and stay on the same
  screen, enough calls end on the result screen at the last index, and the score is the
  same after any number of calls.
\<close>

theorem next_op_steps_through:
  "(idx s + 1 < length (exercises s) \<longrightarrow>
      next_op s = s\<lparr>idx := idx s + 1, answer := [], result := None\<rparr>) \<and>
   (length (exercises s) \<le> idx s + 1 \<longrightarrow> next_op s = s\<lparr>step := Result\<rparr>) \<and>
   (\<forall>n. idx s + n < length (exercises s) \<longrightarrow>
      idx ((next_op ^^ n) s) = idx s + n \<and> step ((next_op ^^ n) s) = step s) \<and>
   (\<forall>n. idx s < length (exercises s) \<longrightarrow> length (exercises s) \<le> idx s + n \<longrightarrow>
      step ((next_op ^^ n) s) = Result \<and> idx ((next_op ^^ n) s) = length (exercises s) - 1) \<and>
   (\<forall>n. score ((next_op ^^ n) s) = score s)"
  using next_op_advance [of s] next_op_finish [of s] funpow_next_op_within [of s]
    funpow_next_op_finished [of s] score_funpow_next_op [of _ s]
  by blast

theorem next_op_steps_through_witness:
  "idx playing_state + 1 < length (exercises playing_state) \<and>
   next_op playing_state = playing_state\<lparr>idx := 1, answer := [], result := None\<rparr> \<and>
   length (exercises reviewing_last_state) \<le> idx reviewing_last_state + 1 \<and>
   next_op reviewing_last_state = reviewing_last_state\<lparr>step := Result\<rparr> \<and>
   idx ((next_op ^^ 1) playing_state) = 1 \<and> step ((next_op ^^ 1) playing_state) = Play \<and>
   step ((next_op ^^ 2) playing_state) = Result \<and> idx ((next_op ^^ 2) playing_state) = 1 \<and>
   score ((next_op ^^ 2) reviewing_last_state) = 20"
proof -
  have h1: "idx playing_state + 1 < length (exercises playing_state)"
    and h0: "idx playing_state < length (exercises playing_state)"
    and h2: "length (exercises playing_state) \<le> idx playing_state + 2"
    and h3: "length (exercises reviewing_last_state) \<le> idx reviewing_last_state + 1"
    and v: "idx playing_state = 0" "step playing_state = Play"
      "length (exercises playing_state) = 2" "score reviewing_last_state = 20"
    by (simp_all add: reviewing_last_state_def playing_state_def catalog_state_def init_state_def)
  note t = next_op_steps_through [of playing_state]
  note u = next_op_steps_through [of reviewing_last_state]
  from t h1 v have a: "next_op playing_state = playing_state\<lparr>idx := 1, answer := [], result := None\<rparr>"
    by simp
  from u h3 have b: "next_op reviewing_last_state = reviewing_last_state\<lparr>step := Result\<rparr>"
    by simp
  from t h1 have "idx ((next_op ^^ 1) playing_state) = idx playing_state + 1 \<and>
      step ((next_op ^^ 1) playing_state) = step playing_state"
    by blast
  with v have c: "idx ((next_op ^^ 1) playing_state) = 1" "step ((next_op ^^ 1) playing_state) = Play"
    by simp_all
  from t h0 h2 have "step ((next_op ^^ 2) playing_state) = Result \<and>
      idx ((next_op ^^ 2) playing_state) = length (exercises playing_state) - 1"
    by blast
  with v have d: "step ((next_op ^^ 2) playing_state) = Result" "idx ((next_op ^^ 2) playing_state) = 1"
    by simp_all
  from u have "score ((next_op ^^ 2) reviewing_last_state) = score reviewing_last_state"
    by blast
  with v have e: "score ((next_op ^^ 2) reviewing_last_state) = 20" by simp
  from h1 a h3 b c d e show ?thesis by simp
qed

section \<open>The score\<close>

lemma score_act:
  "score (act a s) =
     (case a of
        StartLessonResume (Inr d) \<Rightarrow> 0
      | SubmitCurrentResume (Inr r) \<Rightarrow> (if correct r then score s + 10 else score s)
      | _ \<Rightarrow> score s)"
  by (cases a)
     (simp_all add: seedDemo_begin_def seedDemo_finally_def loadCourses_begin_def loadCourses_resume_def
      setSelectedCourse_def loadLessons_begin_def loadLessons_resume_def startLesson_begin_def
      startLesson_resume_def submitCurrent_begin_def submitCurrent_resume_def next_op_def
      resetToHome_def setAnswer_def
      Let_def split: sum.split list.split option.split)

lemma score_act_mono:
  "\<forall>d. a \<noteq> StartLessonResume (Inr d) \<Longrightarrow> score s \<le> score (act a s)"
  by (simp only: score_act) (auto split: action.split sum.split)

lemma score_run_mono:
  "\<forall>a\<in>set as. \<forall>d. a \<noteq> StartLessonResume (Inr d) \<Longrightarrow> score s \<le> score (run as s)"
proof (induction as arbitrary: s)
  case Nil
  show ?case by simp
next
  case (Cons a as)
  from Cons.prems have "score s \<le> score (act a s)"
    by (simp add: score_act_mono)
  also from Cons have "score (act a s) \<le> score (run as (act a s))"
    by simp
  finally show ?case by simp
qed

lemma score_act_nonneg: "0 \<le> score s \<Longrightarrow> 0 \<le> score (act a s)"
  by (simp only: score_act) (auto split: action.split sum.split)

lemma score_run_nonneg: "0 \<le> score s \<Longrightarrow> 0 \<le> score (run as s)"
  by (induction as arbitrary: s) (simp_all add: score_act_nonneg)


lemma score_act_decrease:
  "score (act a s) < score s \<Longrightarrow> \<exists>d. a = StartLessonResume (Inr d)"
  using score_act_mono [of a s] by fastforce

text \<open>
  C6: no write to the state lowers the score except the success branch of
  \<^verbatim>\<open>startLesson\<close>, which sets it to 0; so over any sequence of writes without one
  the score never decreases.  The response to a submission adds exactly 10 when it is
  correct and nothing when it is not or when the call fails.  From the initial state the
  score is never negative, so the reset is the only way down.
\<close>

theorem score_discipline:
  "((\<forall>d. a \<noteq> StartLessonResume (Inr d)) \<longrightarrow> score s \<le> score (act a s)) \<and>
   ((\<forall>a\<in>set as. \<forall>d. a \<noteq> StartLessonResume (Inr d)) \<longrightarrow> score s \<le> score (run as s)) \<and>
   score (act (SubmitCurrentResume (Inr r)) s) = (if correct r then score s + 10 else score s) \<and>
   score (act (SubmitCurrentResume (Inl e)) s) = score s \<and>
   (current s \<noteq> None \<longrightarrow>
      score (submitCurrent (Inr r) s) = (if correct r then score s + 10 else score s)) \<and>
   score (act (StartLessonResume (Inr d)) s) = 0 \<and>
   score (startLesson (Some l) (Inr d) s) = 0 \<and>
   (score (act a s) < score s \<longrightarrow> (\<exists>d. a = StartLessonResume (Inr d))) \<and>
   0 \<le> score (run as init_state)"
proof (intro conjI impI)
  show "score (act a s) < score s \<Longrightarrow> \<exists>d. a = StartLessonResume (Inr d)"
    by (rule score_act_decrease)
  show "0 \<le> score (run as init_state)"
    by (rule score_run_nonneg) (simp add: init_state_def)
  show "current s \<noteq> None \<Longrightarrow>
      score (submitCurrent (Inr r) s) = (if correct r then score s + 10 else score s)"
    by (auto simp: submitCurrent_def submitCurrent_begin_def submitCurrent_resume_def)
  show "score (startLesson (Some l) (Inr d) s) = 0"
    by (simp add: startLesson_def startLesson_begin_def startLesson_resume_def)
  show "\<forall>d. a \<noteq> StartLessonResume (Inr d) \<Longrightarrow> score s \<le> score (act a s)"
    by (rule score_act_mono)
  show "\<forall>a\<in>set as. \<forall>d. a \<noteq> StartLessonResume (Inr d) \<Longrightarrow> score s \<le> score (run as s)"
    by (rule score_run_mono)
  show "score (act (SubmitCurrentResume (Inr r)) s) = (if correct r then score s + 10 else score s)"
    by (simp add: submitCurrent_resume_def)
  show "score (act (SubmitCurrentResume (Inl e)) s) = score s"
    by (simp add: submitCurrent_resume_def)
  show "score (act (StartLessonResume (Inr d)) s) = 0"
    by (simp add: startLesson_resume_def)
qed

theorem score_discipline_witness:
  "score (act (SubmitCurrentResume (Inr wrong)) reviewing_last_state) = 20 \<and>
   score (act (SubmitCurrentResume (Inr right)) reviewing_last_state) = 30 \<and>
   score reviewing_last_state \<le> score (act Next reviewing_last_state) \<and>
   score reviewing_last_state \<le>
     score (run [ResetToHome, LoadLessonsBegin spanish, SubmitCurrentResume (Inr right)]
             reviewing_last_state) \<and>
   current playing_state \<noteq> None \<and>
   score (submitCurrent (Inr right) playing_state) = 10 \<and>
   score (act (StartLessonResume (Inr [ex_1])) reviewing_last_state) < score reviewing_last_state \<and>
   (\<exists>d. StartLessonResume (Inr [ex_1]) = StartLessonResume (Inr d)) \<and>
   score (run two_exercise_run catalog_state) = 10"
proof -
  note t = score_discipline [of _ reviewing_last_state _ _ _ _ _]
  have v: "score reviewing_last_state = 20" "correct right" "\<not> correct wrong"
    "score playing_state = 0"
    by (simp_all add: reviewing_last_state_def playing_state_def catalog_state_def init_state_def right_def wrong_def)
  have cur: "current playing_state \<noteq> None"
    by (simp add: current_def playing_state_def catalog_state_def init_state_def)
  from score_discipline [of _ reviewing_last_state _ wrong] v
  have a: "score (act (SubmitCurrentResume (Inr wrong)) reviewing_last_state) = 20"
    by simp
  from score_discipline [of _ reviewing_last_state _ right] v
  have b: "score (act (SubmitCurrentResume (Inr right)) reviewing_last_state) = 30"
    by simp
  have "\<forall>d. Next \<noteq> StartLessonResume (Inr d)" by simp
  with score_discipline [of Next reviewing_last_state]
  have c: "score reviewing_last_state \<le> score (act Next reviewing_last_state)"
    by blast
  have "\<forall>a\<in>set [ResetToHome, LoadLessonsBegin spanish, SubmitCurrentResume (Inr right)].
          \<forall>d. a \<noteq> StartLessonResume (Inr d)"
    by simp
  with score_discipline [of _ reviewing_last_state
      "[ResetToHome, LoadLessonsBegin spanish, SubmitCurrentResume (Inr right)]"]
  have d: "score reviewing_last_state \<le>
     score (run [ResetToHome, LoadLessonsBegin spanish, SubmitCurrentResume (Inr right)]
             reviewing_last_state)"
    by blast
  from score_discipline [of _ playing_state _ right] cur v
  have e: "score (submitCurrent (Inr right) playing_state) = 10"
    by simp
  from score_discipline [of _ reviewing_last_state _ _ _ "[ex_1]"] v
  have f: "score (act (StartLessonResume (Inr [ex_1])) reviewing_last_state) < score reviewing_last_state"
    by simp
  with score_discipline [of "StartLessonResume (Inr [ex_1])" reviewing_last_state]
  have g: "\<exists>d. StartLessonResume (Inr [ex_1]) = StartLessonResume (Inr d)"
    by blast
  have h: "score (run two_exercise_run catalog_state) = 10"
    by (simp add: two_exercise_run_def startLesson_begin_def startLesson_resume_def
        setAnswer_def submitCurrent_begin_def submitCurrent_resume_def next_op_def current_def
        catalog_state_def init_state_def right_def wrong_def)
  from a b c d cur e f g h show ?thesis by blast
qed

section \<open>The last result\<close>

text \<open>
  C7, as stated: every call of \<^verbatim>\<open>next\<close> and every start or restart clears the last
  result.  It does not hold.  On the last exercise \<^verbatim>\<open>next\<close> only switches to the
  result screen and the result stays; a retry whose fetch fails leaves it in place too.
\<close>

theorem result_kept_counterexample:
  "result (next_op reviewing_last_state) \<noteq> None \<and>
   result (startLesson (Some lesson_b) (Inl TransportFailure) (next_op reviewing_last_state))
     \<noteq> None"
  by (simp add: next_op_def startLesson_def startLesson_begin_def startLesson_resume_def reviewing_last_state_def
      playing_state_def catalog_state_def init_state_def)

lemma result_act:
  "result s = None \<Longrightarrow> result (act a s) \<noteq> None \<Longrightarrow> \<exists>r. a = SubmitCurrentResume (Inr r)"
  by (cases a)
     (auto simp: seedDemo_begin_def seedDemo_finally_def loadCourses_begin_def loadCourses_resume_def
      setSelectedCourse_def loadLessons_begin_def loadLessons_resume_def startLesson_begin_def
      startLesson_resume_def submitCurrent_begin_def submitCurrent_resume_def next_op_def
      resetToHome_def setAnswer_def
      Let_def split: sum.splits list.splits option.splits if_splits)

text \<open>
  C7, amended: the last result is cleared by \<^verbatim>\<open>next\<close> when it advances to a
  further exercise, by every \<^verbatim>\<open>startLesson\<close> whose fetch succeeds (first start or
  retry) and by \<^verbatim>\<open>resetToHome\<close>; \<^verbatim>\<open>next\<close> on the last exercise and a
  \<^verbatim>\<open>startLesson\<close> whose fetch fails leave it as it was.  It becomes defined only
  through the response to a submission.
\<close>

theorem result_cleared:
  "(idx s + 1 < length (exercises s) \<longrightarrow> result (next_op s) = None) \<and>
   (length (exercises s) \<le> idx s + 1 \<longrightarrow>
      result (next_op s) = result s \<and> step (next_op s) = Result) \<and>
   result (startLesson (Some l) (Inr d) s) = None \<and>
   result (startLesson l' (Inl e) s) = result s \<and>
   result (resetToHome s) = None \<and>
   (result s = None \<longrightarrow> result (act a s) \<noteq> None \<longrightarrow> (\<exists>r. a = SubmitCurrentResume (Inr r)))"
proof (intro conjI impI)
  show "result s = None \<Longrightarrow> result (act a s) \<noteq> None \<Longrightarrow> \<exists>r. a = SubmitCurrentResume (Inr r)"
    by (rule result_act)
  show "result (startLesson l' (Inl e) s) = result s"
    by (cases l') (simp_all add: startLesson_def startLesson_begin_def startLesson_resume_def)
qed (simp_all add: next_op_def resetToHome_def startLesson_def startLesson_begin_def startLesson_resume_def)

theorem result_cleared_witness:
  "idx reviewing_first_state + 1 < length (exercises reviewing_first_state) \<and>
   result reviewing_first_state = Some right \<and>
   result (next_op reviewing_first_state) = None \<and>
   length (exercises reviewing_last_state) \<le> idx reviewing_last_state + 1 \<and>
   result (next_op reviewing_last_state) = Some right \<and>
   step (next_op reviewing_last_state) = Result \<and>
   result playing_state = None \<and>
   result (act (SubmitCurrentResume (Inr wrong)) playing_state) \<noteq> None \<and>
   (\<exists>r. SubmitCurrentResume (Inr wrong) = SubmitCurrentResume (Inr r))"
proof -
  have h1: "idx reviewing_first_state + 1 < length (exercises reviewing_first_state)"
    and h2: "length (exercises reviewing_last_state) \<le> idx reviewing_last_state + 1"
    and v: "result reviewing_first_state = Some right" "result reviewing_last_state = Some right"
      "result playing_state = None"
    by (simp_all add: reviewing_first_state_def reviewing_last_state_def
        playing_state_def catalog_state_def init_state_def)
  have h3: "result (act (SubmitCurrentResume (Inr wrong)) playing_state) \<noteq> None"
    by (simp add: submitCurrent_resume_def)
  from result_cleared [of reviewing_first_state] h1
  have a: "result (next_op reviewing_first_state) = None"
    by blast
  from result_cleared [of reviewing_last_state] h2 v
  have b: "result (next_op reviewing_last_state) = Some right"
    "step (next_op reviewing_last_state) = Result"
    by simp_all
  from result_cleared [of playing_state _ _ _ _ "SubmitCurrentResume (Inr wrong)"] v h3
  have c: "\<exists>r. SubmitCurrentResume (Inr wrong) = SubmitCurrentResume (Inr r)"
    by blast
  from h1 h2 v h3 a b c show ?thesis by blast
qed

section \<open>Leaving a lesson\<close>

text \<open>
  C9: \<^verbatim>\<open>resetToHome\<close> shows the catalog and clears the selected lesson, the
  exercise list, the index, the draft and the last result; the score (like the courses,
  the lessons and the busy flag) is left as it was, and the next successful
  \<^verbatim>\<open>startLesson\<close> sets it to 0.
\<close>

theorem resetToHome_keeps_score:
  "step (resetToHome s) = Home \<and>
   selectedLesson (resetToHome s) = None \<and>
   exercises (resetToHome s) = [] \<and>
   idx (resetToHome s) = 0 \<and>
   answer (resetToHome s) = [] \<and>
   result (resetToHome s) = None \<and>
   score (resetToHome s) = score s \<and>
   loading (resetToHome s) = loading s \<and>
   courses (resetToHome s) = courses s \<and>
   selectedCourse (resetToHome s) = selectedCourse s \<and>
   lessons (resetToHome s) = lessons s \<and>
   score (startLesson (Some l) (Inr d) (resetToHome s)) = 0"
  by (simp add: resetToHome_def startLesson_def startLesson_begin_def startLesson_resume_def)

end
